theory Spec2Isabelle
  imports Main "HOL-Library.Sublist"
begin

section \<open>The conversation screen of the tutor app (src/App.js)\<close>

text \<open>
  The component \<^verbatim>\<open>App\<close> keeps four pieces of React state (\<^verbatim>\<open>messages\<close>,
  \<^verbatim>\<open>isRecording\<close>, \<^verbatim>\<open>isLoading\<close>, \<^verbatim>\<open>textToProcess\<close>) and one ref
  (\<^verbatim>\<open>textRef\<close>). Its handlers are embedded as functions from state to state. What the
  handlers do to the outside world (HTTP requests, alerts, speech output, recognizer
  calls, timers) is recorded in log fields of the same state, in call order.
  Readings of \<^verbatim>\<open>Date.now()\<close> and the results of awaited calls are arguments.
\<close>

subsection \<open>JavaScript values\<close>

text \<open>
  The response of \<^verbatim>\<open>axios.post\<close> is inspected with property reads and \<^verbatim>\<open>??\<close>, so
  the values that flow through it are kept as JavaScript values. Strings are lists of
  8-bit code units.
\<close>

datatype jsval =
    Undefined
  | Null
  | Str string
  | Num int
  | Obj "(string \<times> jsval) list"

datatype js_error = TypeError

text \<open>\<^verbatim>\<open>v.k\<close>: throws on \<^verbatim>\<open>undefined\<close> and \<^verbatim>\<open>null\<close>; a missing property reads as
  \<^verbatim>\<open>undefined\<close>. Only the keys \<^verbatim>\<open>reply\<close> and \<^verbatim>\<open>data\<close> are ever read, which no
  primitive value has.\<close>

definition get_prop :: "jsval \<Rightarrow> string \<Rightarrow> js_error + jsval" where
  "get_prop v k =
     (case v of
        Undefined \<Rightarrow> Inl TypeError
      | Null \<Rightarrow> Inl TypeError
      | Str s \<Rightarrow> Inr Undefined
      | Num n \<Rightarrow> Inr Undefined
      | Obj kvs \<Rightarrow> (case map_of kvs k of None \<Rightarrow> Inr Undefined | Some x \<Rightarrow> Inr x))"

text \<open>The left operand of \<^verbatim>\<open>??\<close> is skipped exactly when it is \<^verbatim>\<open>null\<close> or
  \<^verbatim>\<open>undefined\<close>.\<close>

definition nullish :: "jsval \<Rightarrow> bool" where
  "nullish v = (case v of Undefined \<Rightarrow> True | Null \<Rightarrow> True | _ \<Rightarrow> False)"

text \<open>\<^verbatim>\<open>String.prototype.trim\<close>: white space and line terminators of ECMAScript that
  fit in one 8-bit code unit (TAB, LF, VT, FF, CR, SPACE, NBSP).\<close>

definition is_ws :: "char \<Rightarrow> bool" where
  "is_ws c = (of_char c \<in> {9, 10, 11, 12, 13, 32, 160 :: nat})"

definition trim :: "string \<Rightarrow> string" where
  "trim s = rev (dropWhile is_ws (rev (dropWhile is_ws s)))"

subsection \<open>Messages, requests and the component state\<close>

datatype sender = User | Ai | System

record message =
  msg_id :: nat
  msg_text :: jsval
  msg_sender :: sender

record request =
  req_method :: string
  req_url :: string
  req_body :: jsval
  req_headers :: "(string \<times> string) list"

datatype voice_call = VoiceStart string | VoiceStop

record speak_call =
  speak_text :: jsval
  speak_voice :: string

record app =
  messages :: "message list"
  isRecording :: bool
  isLoading :: bool
  textToProcess :: string
  textRef :: string
  requests :: "request list"
  alerts :: "(string \<times> string) list"
  spoken :: "speak_call list"
  voiceCalls :: "voice_call list"
  timers :: "nat list"

definition API_URL :: string where
  "API_URL = ''http://localhost:8000/chat''"

text \<open>The state after the first render: \<^verbatim>\<open>useState([])\<close>, \<^verbatim>\<open>useState(false)\<close>,
  \<^verbatim>\<open>useState('')\<close>, \<^verbatim>\<open>useRef('')\<close>.\<close>

definition initial :: app where
  "initial = \<lparr> messages = [], isRecording = False, isLoading = False,
     textToProcess = [], textRef = [], requests = [], alerts = [], spoken = [],
     voiceCalls = [], timers = [] \<rparr>"

subsection \<open>sendTextToBackend\<close>

text \<open>\<^verbatim>\<open>axios.post(API_URL, { text: text }, { headers: { 'Content-Type': 'application/json' } })\<close>\<close>

definition post_request :: "string \<Rightarrow> request" where
  "post_request txt = \<lparr> req_method = ''POST'', req_url = API_URL,
     req_body = Obj [(''text'', Str txt)],
     req_headers = [(''Content-Type'', ''application/json'')] \<rparr>"

text \<open>
  The function is asynchronous with one \<^verbatim>\<open>await\<close>. \<open>sendTextToBackend\<close> is the part
  that runs when it is called, up to the point where the request has been issued
  (lines 96-104); no caller awaits it. \<open>now\<close> is the reading of \<^verbatim>\<open>Date.now()\<close> on
  line 99.
\<close>

definition sendTextToBackend :: "string \<Rightarrow> nat \<Rightarrow> app \<Rightarrow> app" where
  "sendTextToBackend txt now st =
     (if txt = [] \<or> trim txt = [] then st
      else st\<lparr> isLoading := True,
               messages := messages st @ [\<lparr> msg_id = now, msg_text = Str txt, msg_sender = User \<rparr>],
               textToProcess := [],
               requests := requests st @ [post_request txt] \<rparr>)"

text \<open>How the awaited request ends: the promise is rejected (network error, status
  outside 2xx) or resolved with a response value.\<close>

datatype outcome = Rejected | Resolved jsval

text \<open>
  What \<^verbatim>\<open>axios.post\<close> resolves with when nothing is put between the call and its
  result (the file installs no interceptor and no adapter): an object with the
  properties \<^verbatim>\<open>data\<close> (the response body), \<^verbatim>\<open>status\<close>, \<^verbatim>\<open>statusText\<close>,
  \<^verbatim>\<open>headers\<close>, \<^verbatim>\<open>config\<close> and \<^verbatim>\<open>request\<close>, and no other.
\<close>

record axios_response =
  ax_data :: jsval
  ax_status :: int
  ax_statusText :: string
  ax_headers :: jsval
  ax_config :: jsval
  ax_request :: jsval

definition response_object :: "axios_response \<Rightarrow> jsval" where
  "response_object r =
     Obj [(''data'', ax_data r), (''status'', Num (ax_status r)),
          (''statusText'', Str (ax_statusText r)), (''headers'', ax_headers r),
          (''config'', ax_config r), (''request'', ax_request r)]"

text \<open>\<^verbatim>\<open>response.reply ?? response.data.reply\<close> (line 110).\<close>

definition aiResponse :: "jsval \<Rightarrow> js_error + jsval" where
  "aiResponse response =
     (case get_prop response ''reply'' of
        Inl e \<Rightarrow> Inl e
      | Inr r \<Rightarrow>
          if nullish r
          then (case get_prop response ''data'' of
                  Inl e \<Rightarrow> Inl e
                | Inr d \<Rightarrow> get_prop d ''reply'')
          else Inr r)"

text \<open>The \<^verbatim>\<open>catch\<close> block (lines 121-124); \<open>now\<close> is \<^verbatim>\<open>Date.now()\<close> on line 124.\<close>

definition on_catch :: "nat \<Rightarrow> app \<Rightarrow> app" where
  "on_catch now st =
     st\<lparr> alerts := alerts st @ [(''Error'', ''Failed to connect to the tutor.'')],
         messages := messages st @
           [\<lparr> msg_id = now, msg_text = Str ''Error connecting to server.'', msg_sender = System \<rparr>] \<rparr>"

text \<open>
  \<open>sendTextToBackend_settled\<close> is the rest of the function, run when the request has
  settled (lines 108-127). \<open>now\<close> is the one reading of \<^verbatim>\<open>Date.now()\<close> this part takes:
  line 111 when the reply is extracted, line 124 otherwise. \<^verbatim>\<open>Speech.speak\<close> is
  fire-and-forget and taken not to throw; of its options the voice is logged.
\<close>

definition sendTextToBackend_settled :: "outcome \<Rightarrow> nat \<Rightarrow> app \<Rightarrow> app" where
  "sendTextToBackend_settled res now st =
     (let st' =
        (case res of
           Rejected \<Rightarrow> on_catch now st
         | Resolved response \<Rightarrow>
             (case aiResponse response of
                Inl e \<Rightarrow> on_catch now st
              | Inr reply \<Rightarrow>
                  st\<lparr> messages := messages st @
                        [\<lparr> msg_id = now + 1, msg_text = reply, msg_sender = Ai \<rparr>],
                      spoken := spoken st @
                        [\<lparr> speak_text = reply,
                           speak_voice = ''com.apple.voice.super-compact.en-US.Samantha'' \<rparr>] \<rparr>))
      in st'\<lparr> isLoading := False \<rparr>)"

subsection \<open>Recognizer callbacks\<close>

definition onSpeechStart :: "app \<Rightarrow> app" where
  "onSpeechStart st = st\<lparr> isRecording := True \<rparr>"

text \<open>
  \<^verbatim>\<open>onSpeechEnd\<close> reads the variable \<^verbatim>\<open>textToProcess\<close>, not the ref. The callback
  the recognizer calls is the one the mount effect installed (lines 30-48, dependency
  list \<^verbatim>\<open>[]\<close>, so it runs once, after the first render), and the variable that
  instance closes over is the one of the first render, \<^verbatim>\<open>useState('')\<close>: the text it
  observes is the initial one whatever the state holds by then. \<open>now\<close> is the reading
  of \<^verbatim>\<open>Date.now()\<close> a send would take.
\<close>

definition onSpeechEnd :: "nat \<Rightarrow> app \<Rightarrow> app" where
  "onSpeechEnd now st =
     (let st1 = st\<lparr> isRecording := False \<rparr>;
          seen = textToProcess initial
      in if trim seen = [] then st1 else sendTextToBackend seen now st1)"

definition onSpeechError :: "app \<Rightarrow> app" where
  "onSpeechError st = st\<lparr> isRecording := False \<rparr>"

text \<open>\<^verbatim>\<open>e.value\<close> is \<open>None\<close> when the event carries no list.\<close>

definition onSpeechResults :: "string list option \<Rightarrow> app \<Rightarrow> app" where
  "onSpeechResults val st =
     (case val of
        None \<Rightarrow> st
      | Some [] \<Rightarrow> st
      | Some (v # vs) \<Rightarrow> st\<lparr> textToProcess := v \<rparr>)"

subsection \<open>Recording and the press gesture\<close>

text \<open>
  State setters are applied at once, and the awaited recognizer calls return at once.
  \<open>stop_ok\<close> is False when \<^verbatim>\<open>Voice.stop()\<close> throws; the \<^verbatim>\<open>catch\<close> only logs.
\<close>

definition stopRecording :: "bool \<Rightarrow> app \<Rightarrow> app" where
  "stopRecording stop_ok st =
     (let st1 = st\<lparr> voiceCalls := voiceCalls st @ [VoiceStop] \<rparr>
      in if stop_ok then st1\<lparr> isRecording := False \<rparr> else st1)"

text \<open>A failure of \<^verbatim>\<open>Voice.start\<close> is caught and logged, with no effect on the state.\<close>

definition startRecording :: "bool \<Rightarrow> app \<Rightarrow> app" where
  "startRecording stop_ok st =
     (let st1 = st\<lparr> textToProcess := [] \<rparr>;
          st2 = (if isRecording st then stopRecording stop_ok st1 else st1)
      in st2\<lparr> voiceCalls := voiceCalls st2 @ [VoiceStart ''en-US''] \<rparr>)"

definition handlePressIn :: "bool \<Rightarrow> app \<Rightarrow> app" where
  "handlePressIn stop_ok st = startRecording stop_ok st"

text \<open>\<^verbatim>\<open>handlePressOut\<close> stops the recognizer and schedules the callback below with a
  delay of 1000 ms.\<close>

definition handlePressOut :: "bool \<Rightarrow> app \<Rightarrow> app" where
  "handlePressOut stop_ok st =
     (let st1 = stopRecording stop_ok st in st1\<lparr> timers := timers st1 @ [1000] \<rparr>)"

text \<open>The callback given to \<^verbatim>\<open>setTimeout\<close> (lines 144-148).\<close>

definition pressOutTimeout :: "nat \<Rightarrow> app \<Rightarrow> app" where
  "pressOutTimeout now st =
     (if textRef st = [] then st else sendTextToBackend (textRef st) now st)"

text \<open>The effect that keeps the ref in sync after a render (lines 133-136).\<close>

definition syncTextRef :: "app \<Rightarrow> app" where
  "syncTextRef st = st\<lparr> textRef := textToProcess st \<rparr>"

subsection \<open>Event sequences\<close>

text \<open>
  Everything that can run between two suspension points. The events carry what the
  environment supplies: clock readings, recognizer payloads, request outcomes. Pending
  timers and requests are not tracked: every list of events is a run, which covers
  every order in which the runtime can deliver them.
\<close>

datatype event =
    PressIn bool
  | PressOut bool
  | TimerFired nat
  | SpeechStart
  | SpeechEnd nat
  | SpeechError
  | SpeechResults "string list option"
  | Settled outcome nat
  | Rendered

fun step :: "event \<Rightarrow> app \<Rightarrow> app" where
  "step (PressIn ok) st = handlePressIn ok st"
| "step (PressOut ok) st = handlePressOut ok st"
| "step (TimerFired now) st = pressOutTimeout now st"
| "step SpeechStart st = onSpeechStart st"
| "step (SpeechEnd now) st = onSpeechEnd now st"
| "step SpeechError st = onSpeechError st"
| "step (SpeechResults val) st = onSpeechResults val st"
| "step (Settled res now) st = sendTextToBackend_settled res now st"
| "step Rendered st = syncTextRef st"

fun run :: "event list \<Rightarrow> app \<Rightarrow> app" where
  "run [] st = st"
| "run (e # es) st = run es (step e st)"


section \<open>Properties\<close>

subsection \<open>Trimming\<close>

lemma trim_all_ws:
  assumes "list_all is_ws s"
  shows "trim s = []"
proof -
  have d: "dropWhile is_ws s = []"
    using assms by (simp add: list_all_iff)
  show ?thesis
    unfolding trim_def d by simp
qed

lemma trim_Nil_all_ws:
  assumes "trim s = []"
  shows "list_all is_ws s"
proof -
  let ?d = "dropWhile is_ws s"
  have all: "\<forall>c\<in>set ?d. is_ws c"
    using assms by (simp add: trim_def)
  have "?d = []"
  proof (rule ccontr)
    assume ne: "?d \<noteq> []"
    then have "\<not> is_ws (hd ?d)" by (rule hd_dropWhile)
    moreover have "hd ?d \<in> set ?d" using ne by simp
    ultimately show False using all by blast
  qed
  then show ?thesis by (simp add: list_all_iff)
qed

subsection \<open>Recognizer results\<close>

text \<open>
  C10. A results event whose value list is absent or empty leaves the held candidate
  text, and the rest of the state, as it was; an event carrying at least one value
  replaces the candidate text with the first element of the list.
\<close>

theorem onSpeechResults_frame:
  "onSpeechResults None st = st \<and> onSpeechResults (Some []) st = st \<and>
   textToProcess (onSpeechResults (Some (v # vs)) st) = v"
  by (simp add: onSpeechResults_def)

subsection \<open>The guard of the send function\<close>

text \<open>
  C9. A candidate text that is non-empty but made of white space only passes the
  truthiness test of the release timer (the timer callback does call the send function
  with it), and the send function then returns at its guard: the state is unchanged, so
  no Message is appended and no request is issued.
\<close>

theorem whitespace_only_not_sent:
  assumes "txt \<noteq> []" and "list_all is_ws txt" and "textRef st = txt"
  shows "sendTextToBackend txt now st = st \<and>
         pressOutTimeout now st = sendTextToBackend txt now st"
  using assms trim_all_ws [OF assms(2)]
  by (simp add: sendTextToBackend_def pressOutTimeout_def)

theorem whitespace_only_not_sent_witness:
  "''  '' \<noteq> [] \<and> list_all is_ws ''  '' \<and> textRef (initial\<lparr> textRef := ''  '' \<rparr>) = ''  '' \<and>
   sendTextToBackend ''  '' 1000 (initial\<lparr> textRef := ''  '' \<rparr>) = initial\<lparr> textRef := ''  '' \<rparr> \<and>
   pressOutTimeout 1000 (initial\<lparr> textRef := ''  '' \<rparr>) = initial\<lparr> textRef := ''  '' \<rparr>"
  using whitespace_only_not_sent [of "''  ''" "initial\<lparr> textRef := ''  '' \<rparr>" 1000]
  by (simp add: is_ws_def)

subsection \<open>The request\<close>

text \<open>
  C8. Whatever a send of a non-empty utterance issues is one HTTP POST to the fixed URL
  \<^verbatim>\<open>http://localhost:8000/chat\<close>, with the body \<^verbatim>\<open>{"text": <utterance>}\<close> and
  the header \<^verbatim>\<open>Content-Type: application/json\<close>; it issues that request whenever the
  utterance has a character that is not white space, and nothing otherwise.
\<close>

theorem request_is_fixed_post:
  assumes "txt \<noteq> []"
  shows "requests (sendTextToBackend txt now st) =
           requests st @
             (if trim txt = [] then []
              else [\<lparr> req_method = ''POST'', req_url = ''http://localhost:8000/chat'',
                      req_body = Obj [(''text'', Str txt)],
                      req_headers = [(''Content-Type'', ''application/json'')] \<rparr>])"
  using assms by (simp add: sendTextToBackend_def post_request_def API_URL_def)

theorem request_is_fixed_post_witness:
  "''hello'' \<noteq> [] \<and>
   requests (sendTextToBackend ''hello'' 1000 initial) =
     [\<lparr> req_method = ''POST'', req_url = ''http://localhost:8000/chat'',
        req_body = Obj [(''text'', Str ''hello'')],
        req_headers = [(''Content-Type'', ''application/json'')] \<rparr>]"
  using request_is_fixed_post [of "''hello''" 1000 initial]
  by (simp add: trim_def is_ws_def initial_def)

subsection \<open>The conversation only grows\<close>

lemma step_appends: "\<exists>ms. messages (step ev st) = messages st @ ms"
  by (cases ev)
     (auto simp add: handlePressIn_def startRecording_def stopRecording_def handlePressOut_def
        pressOutTimeout_def onSpeechStart_def onSpeechEnd_def onSpeechError_def
        onSpeechResults_def sendTextToBackend_settled_def on_catch_def syncTextRef_def
        sendTextToBackend_def Let_def
        split: option.splits list.splits outcome.splits sum.splits)

lemma run_appends: "\<exists>ms. messages (run evs st) = messages st @ ms"
proof (induction evs arbitrary: st)
  case Nil
  show ?case by simp
next
  case (Cons e es)
  obtain a where a: "messages (step e st) = messages st @ a"
    using step_appends by blast
  obtain b where b: "messages (run es (step e st)) = messages (step e st) @ b"
    using Cons.IH by blast
  show ?case using a b by simp
qed

text \<open>
  C6. Every handler, and so every sequence of presses, releases, recognizer events,
  timer firings, renders and request outcomes, leaves the Messages that were in the
  conversation where they were: the old conversation is a prefix of the new one, so
  nothing is removed, edited or reordered.
\<close>

theorem conversation_append_only:
  "prefix (messages st) (messages (step ev st)) \<and>
   prefix (messages st) (messages (run evs st))"
  using step_appends [of ev st] run_appends [of evs st]
  by (auto simp add: prefix_def)

subsection \<open>A successful exchange\<close>

lemma messages_sent:
  assumes "trim txt \<noteq> []"
  shows "messages (sendTextToBackend txt now st) =
           messages st @ [\<lparr> msg_id = now, msg_text = Str txt, msg_sender = User \<rparr>]"
proof -
  have "txt \<noteq> []" using assms by (auto simp add: trim_def)
  then show ?thesis using assms by (simp add: sendTextToBackend_def)
qed

lemma messages_settled_reply:
  assumes "aiResponse response = Inr reply"
  shows "messages (sendTextToBackend_settled (Resolved response) now st) =
           messages st @ [\<lparr> msg_id = now + 1, msg_text = reply, msg_sender = Ai \<rparr>]"
  using assms by (simp add: sendTextToBackend_settled_def)

text \<open>
  C3. Take a send of a text \<open>T\<close> that gets past the guard (so \<open>T\<close> is non-empty) and
  whose request resolves with a response from which the reply is extracted. The call
  appends exactly one Message, the user Message with text \<open>T\<close>. When the request
  settles, the assistant Message of the exchange is appended last, so the user Message
  stands before it, whatever the events in between have appended; with no event in
  between the exchange appends the user Message and then the assistant Message, and
  nothing else.
\<close>

theorem user_message_before_reply:
  assumes "trim txt \<noteq> []" and "aiResponse response = Inr reply"
  shows "messages (sendTextToBackend txt t0 st) =
           messages st @ [\<lparr> msg_id = t0, msg_text = Str txt, msg_sender = User \<rparr>] \<and>
         (\<exists>between.
            messages (sendTextToBackend_settled (Resolved response) t1
                        (run evs (sendTextToBackend txt t0 st))) =
              messages st @ [\<lparr> msg_id = t0, msg_text = Str txt, msg_sender = User \<rparr>] @ between @
                [\<lparr> msg_id = t1 + 1, msg_text = reply, msg_sender = Ai \<rparr>] \<and>
            messages (run evs (sendTextToBackend txt t0 st)) =
              messages st @ [\<lparr> msg_id = t0, msg_text = Str txt, msg_sender = User \<rparr>] @ between) \<and>
         messages (sendTextToBackend_settled (Resolved response) t1 (sendTextToBackend txt t0 st)) =
           messages st @ [\<lparr> msg_id = t0, msg_text = Str txt, msg_sender = User \<rparr>,
                          \<lparr> msg_id = t1 + 1, msg_text = reply, msg_sender = Ai \<rparr>]"
proof -
  let ?u = "\<lparr> msg_id = t0, msg_text = Str txt, msg_sender = User \<rparr>"
  let ?s1 = "sendTextToBackend txt t0 st"
  have sent: "messages ?s1 = messages st @ [?u]"
    using assms(1) by (rule messages_sent)
  obtain between where b: "messages (run evs ?s1) = messages ?s1 @ between"
    using run_appends by blast
  have "messages (sendTextToBackend_settled (Resolved response) t1 (run evs ?s1)) =
          messages st @ [?u] @ between @ [\<lparr> msg_id = t1 + 1, msg_text = reply, msg_sender = Ai \<rparr>]"
    using messages_settled_reply [OF assms(2)] b sent by simp
  moreover have "messages (run evs ?s1) = messages st @ [?u] @ between"
    using b sent by simp
  moreover have "messages (sendTextToBackend_settled (Resolved response) t1 ?s1) =
          messages st @ [?u, \<lparr> msg_id = t1 + 1, msg_text = reply, msg_sender = Ai \<rparr>]"
    using messages_settled_reply [OF assms(2)] sent by simp
  ultimately show ?thesis using sent by blast
qed

theorem user_message_before_reply_witness:
  "trim ''hello'' \<noteq> [] \<and>
   aiResponse (Obj [(''data'', Obj [(''reply'', Str ''Hi there!'')])]) = Inr (Str ''Hi there!'') \<and>
   messages (sendTextToBackend_settled
               (Resolved (Obj [(''data'', Obj [(''reply'', Str ''Hi there!'')])])) 1200
               (sendTextToBackend ''hello'' 1000 initial)) =
     [\<lparr> msg_id = 1000, msg_text = Str ''hello'', msg_sender = User \<rparr>,
      \<lparr> msg_id = 1201, msg_text = Str ''Hi there!'', msg_sender = Ai \<rparr>]"
proof -
  have h1: "trim ''hello'' \<noteq> []"
    by (simp add: trim_def is_ws_def)
  have h2: "aiResponse (Obj [(''data'', Obj [(''reply'', Str ''Hi there!'')])]) = Inr (Str ''Hi there!'')"
    by (simp add: aiResponse_def get_prop_def nullish_def)
  show ?thesis
    using h1 h2 user_message_before_reply [OF h1 h2, of 1000 initial 1200 "[]"]
    by (simp add: initial_def)
qed

subsection \<open>A failed exchange\<close>

text \<open>The reply extraction throws exactly when the response is \<^verbatim>\<open>null\<close> or
  \<^verbatim>\<open>undefined\<close>, or has no usable \<^verbatim>\<open>reply\<close> of its own and a body that is \<^verbatim>\<open>null\<close>
  or \<^verbatim>\<open>undefined\<close>.\<close>

lemma aiResponse_throws:
  "(\<exists>e. aiResponse response = Inl e) \<longleftrightarrow>
     nullish response \<or>
     (\<exists>r d. get_prop response ''reply'' = Inr r \<and> nullish r \<and>
            get_prop response ''data'' = Inr d \<and> nullish d)"
  by (cases response)
     (auto simp add: aiResponse_def get_prop_def nullish_def split: option.splits jsval.splits)

text \<open>
  C4, as stated, fails for a malformed body: a request that resolves with a body that
  is not the expected object (here the string \<^verbatim>\<open><html>\<close>) is handled as a success.
  An assistant Message with the text \<^verbatim>\<open>undefined\<close> is appended, no system Message is
  appended and no alert is shown.
\<close>

theorem malformed_body_counterexample:
  "messages (sendTextToBackend_settled
               (Resolved (Obj [(''status'', Num 200), (''data'', Str ''<html>'')])) 1200
               (sendTextToBackend ''hello'' 1000 initial)) =
     [\<lparr> msg_id = 1000, msg_text = Str ''hello'', msg_sender = User \<rparr>,
      \<lparr> msg_id = 1201, msg_text = Undefined, msg_sender = Ai \<rparr>] \<and>
   alerts (sendTextToBackend_settled
             (Resolved (Obj [(''status'', Num 200), (''data'', Str ''<html>'')])) 1200
             (sendTextToBackend ''hello'' 1000 initial)) = []"
  by (simp add: sendTextToBackend_settled_def sendTextToBackend_def aiResponse_def get_prop_def
      nullish_def trim_def is_ws_def initial_def)

text \<open>
  C4, amended. For every send whose request is rejected (network error, status outside
  2xx), or whose response makes the extraction of the reply throw, exactly one
  system-sender Message with the text \<^verbatim>\<open>Error connecting to server.\<close> is appended, no
  assistant Message is appended and nothing is spoken, the alert is shown, and the
  loading indicator is cleared afterwards.
\<close>

theorem failed_call_appends_system_message:
  assumes "res = Rejected \<or> (\<exists>response e. res = Resolved response \<and> aiResponse response = Inl e)"
  shows "messages (sendTextToBackend_settled res now st) =
           messages st @ [\<lparr> msg_id = now, msg_text = Str ''Error connecting to server.'',
                            msg_sender = System \<rparr>] \<and>
         alerts (sendTextToBackend_settled res now st) =
           alerts st @ [(''Error'', ''Failed to connect to the tutor.'')] \<and>
         spoken (sendTextToBackend_settled res now st) = spoken st \<and>
         isLoading (sendTextToBackend_settled res now st) = False"
  using assms
  by (auto simp add: sendTextToBackend_settled_def on_catch_def)

theorem failed_call_appends_system_message_witness:
  "messages (sendTextToBackend_settled Rejected 1200 (sendTextToBackend ''hello'' 1000 initial)) =
     [\<lparr> msg_id = 1000, msg_text = Str ''hello'', msg_sender = User \<rparr>,
      \<lparr> msg_id = 1200, msg_text = Str ''Error connecting to server.'', msg_sender = System \<rparr>] \<and>
   alerts (sendTextToBackend_settled Rejected 1200 (sendTextToBackend ''hello'' 1000 initial)) =
     [(''Error'', ''Failed to connect to the tutor.'')] \<and>
   isLoading (sendTextToBackend_settled Rejected 1200 (sendTextToBackend ''hello'' 1000 initial)) = False \<and>
   messages (sendTextToBackend_settled (Resolved (Obj [(''data'', Null)])) 1200 initial) =
     [\<lparr> msg_id = 1200, msg_text = Str ''Error connecting to server.'', msg_sender = System \<rparr>]"
proof -
  have h: "\<exists>response e. Resolved (Obj [(''data'', Null)]) = Resolved response \<and> aiResponse response = Inl e"
    by (simp add: aiResponse_def get_prop_def nullish_def)
  show ?thesis
    using failed_call_appends_system_message [of Rejected 1200 "sendTextToBackend ''hello'' 1000 initial"]
      failed_call_appends_system_message [of "Resolved (Obj [(''data'', Null)])" 1200 initial] h
    by (simp add: sendTextToBackend_def trim_def is_ws_def initial_def)
qed

subsection \<open>Message identifiers\<close>

text \<open>
  C7 asks for identifiers that are unique in the session. They are readings of the
  millisecond clock: \<^verbatim>\<open>Date.now()\<close> for user and system Messages, \<^verbatim>\<open>Date.now() + 1\<close>
  for assistant Messages. Two runs in which identifiers repeat: a reply that arrives at
  1499 ms gets the identifier 1500, and so does the user Message of the next exchange,
  sent at 1500 ms by the timer of a second release; and a request that is rejected
  within the millisecond of its send gives the user Message and the system Message the
  same identifier.
\<close>

theorem ids_collide:
  "map msg_id (messages (run
      [PressIn True, SpeechStart, PressOut True, PressIn True, SpeechStart,
       SpeechResults (Some [''hi'']), Rendered, PressOut True,
       TimerFired 1000, Rendered, SpeechResults (Some [''there'']), Rendered,
       Settled (Resolved (Obj [(''data'', Obj [(''reply'', Str ''Hello!'')])])) 1499,
       TimerFired 1500] initial)) = [1000, 1500, 1500] \<and>
   map msg_id (messages (run
      [PressIn True, SpeechStart, SpeechResults (Some [''hi'']), Rendered, PressOut True,
       TimerFired 1000, Settled Rejected 1000] initial)) = [1000, 1000]"
  by (simp add: handlePressIn_def startRecording_def stopRecording_def handlePressOut_def
        pressOutTimeout_def onSpeechStart_def onSpeechEnd_def onSpeechResults_def syncTextRef_def
        sendTextToBackend_def sendTextToBackend_settled_def on_catch_def aiResponse_def
        get_prop_def nullish_def trim_def is_ws_def initial_def Let_def)

subsection \<open>Runs, requests and the held text\<close>

lemma run_append: "run (xs @ ys) st = run ys (run xs st)"
  by (induction xs arbitrary: st) simp_all

lemma onSpeechEnd_never_sends: "onSpeechEnd now st = st\<lparr> isRecording := False \<rparr>"
  by (simp add: onSpeechEnd_def initial_def trim_def)




subsection \<open>Two triggers for one utterance\<close>




subsection \<open>Release with nothing recognized\<close>

text \<open>
  C5, as stated, fails: the timer callback reads the ref when it fires, not when the
  button is released. Here the held text is empty at the release, a recognizer result
  lands within the settle delay, and the timer of that release sends it: one user
  Message is appended and one request is issued.
\<close>

theorem late_result_counterexample:
  "textToProcess (run [PressIn True, SpeechStart] initial) = [] \<and>
   textRef (run [PressIn True, SpeechStart] initial) = [] \<and>
   messages (run [PressIn True, SpeechStart, PressOut True, SpeechResults (Some [''hello'']),
                  Rendered, TimerFired 1000] initial) =
     [\<lparr> msg_id = 1000, msg_text = Str ''hello'', msg_sender = User \<rparr>] \<and>
   requests (run [PressIn True, SpeechStart, PressOut True, SpeechResults (Some [''hello'']),
                  Rendered, TimerFired 1000] initial) = [post_request ''hello'']"
  by (simp add: handlePressIn_def startRecording_def stopRecording_def handlePressOut_def
        pressOutTimeout_def onSpeechStart_def onSpeechResults_def syncTextRef_def
        sendTextToBackend_def trim_def is_ws_def initial_def Let_def)

text \<open>
  C5, amended. For every release of the button while the held candidate text is empty,
  and every sequence of events in the settle delay after which the held text is still
  empty when the timer fires, the release appends no Message and issues no request:
  the release handler changes neither the conversation nor the requests, and the timer
  callback leaves the whole state as it finds it.
\<close>

theorem release_with_empty_text:
  assumes "textToProcess st = []" and "textRef st = []"
    and "textRef (run evs (handlePressOut ok st)) = []"
  shows "messages (handlePressOut ok st) = messages st \<and>
         requests (handlePressOut ok st) = requests st \<and>
         run (PressOut ok # evs @ [TimerFired now]) st = run (PressOut ok # evs) st"
  using assms
  by (simp add: run_append pressOutTimeout_def handlePressOut_def stopRecording_def Let_def)

theorem release_with_empty_text_witness:
  "textToProcess (run [PressIn True, SpeechStart] initial) = [] \<and>
   textRef (run [PressIn True, SpeechStart] initial) = [] \<and>
   textRef (run [SpeechEnd 400, Rendered]
              (handlePressOut True (run [PressIn True, SpeechStart] initial))) = [] \<and>
   messages (run [PressIn True, SpeechStart, PressOut True, SpeechEnd 400, Rendered,
                  TimerFired 1000] initial) = [] \<and>
   requests (run [PressIn True, SpeechStart, PressOut True, SpeechEnd 400, Rendered,
                  TimerFired 1000] initial) = []"
proof -
  let ?st = "run [PressIn True, SpeechStart] initial"
  have h1: "textToProcess ?st = []"
    by (simp add: handlePressIn_def startRecording_def onSpeechStart_def initial_def Let_def)
  have h2: "textRef ?st = []"
    by (simp add: handlePressIn_def startRecording_def onSpeechStart_def initial_def Let_def)
  have h3: "textRef (run [SpeechEnd 400, Rendered] (handlePressOut True ?st)) = []"
    by (simp add: handlePressIn_def startRecording_def onSpeechStart_def handlePressOut_def
        stopRecording_def onSpeechEnd_never_sends syncTextRef_def initial_def Let_def)
  have "run (PressOut True # [SpeechEnd 400, Rendered] @ [TimerFired 1000]) ?st =
          run (PressOut True # [SpeechEnd 400, Rendered]) ?st"
    using release_with_empty_text [OF h1 h2 h3, of 1000] by simp
  then have "run [PressIn True, SpeechStart, PressOut True, SpeechEnd 400, Rendered,
                  TimerFired 1000] initial =
             run [PressIn True, SpeechStart, PressOut True, SpeechEnd 400, Rendered] initial"
    by simp
  then show ?thesis
    using h1 h2 h3
    by (simp add: handlePressIn_def startRecording_def onSpeechStart_def handlePressOut_def
        stopRecording_def onSpeechEnd_never_sends syncTextRef_def initial_def Let_def)
qed

subsection \<open>Where the assistant text comes from\<close>

text \<open>The response object has no \<^verbatim>\<open>reply\<close> of its own, so line 110 always falls
  back to the body.\<close>

lemma aiResponse_response_object:
  "aiResponse (response_object r) = get_prop (ax_data r) ''reply''"
  by (simp add: aiResponse_def response_object_def get_prop_def nullish_def)

text \<open>
  C2. For every successful remote exchange (the request resolves, and the \<^verbatim>\<open>reply\<close>
  field of the response body can be read, with the value \<open>reply\<close>), the text of the
  appended assistant Message is \<open>reply\<close>, and so is the text that is spoken.
\<close>

theorem assistant_text_is_body_reply:
  assumes "get_prop (ax_data r) ''reply'' = Inr reply"
  shows "messages (sendTextToBackend_settled (Resolved (response_object r)) now st) =
           messages st @ [\<lparr> msg_id = now + 1, msg_text = reply, msg_sender = Ai \<rparr>] \<and>
         map speak_text (spoken (sendTextToBackend_settled (Resolved (response_object r)) now st)) =
           map speak_text (spoken st) @ [reply]"
  using assms
  by (simp add: sendTextToBackend_settled_def aiResponse_response_object)

theorem assistant_text_is_body_reply_witness:
  "get_prop (Obj [(''reply'', Str ''Hi there!'')]) ''reply'' = Inr (Str ''Hi there!'') \<and>
   messages (sendTextToBackend_settled
      (Resolved (response_object
         \<lparr> ax_data = Obj [(''reply'', Str ''Hi there!'')], ax_status = 200, ax_statusText = ''OK'',
           ax_headers = Obj [], ax_config = Obj [], ax_request = Obj [] \<rparr>)) 1200 initial) =
     [\<lparr> msg_id = 1201, msg_text = Str ''Hi there!'', msg_sender = Ai \<rparr>]"
proof -
  have h: "get_prop (ax_data \<lparr> ax_data = Obj [(''reply'', Str ''Hi there!'')], ax_status = 200,
              ax_statusText = ''OK'', ax_headers = Obj [], ax_config = Obj [],
              ax_request = Obj [] \<rparr>) ''reply'' = Inr (Str ''Hi there!'')"
    by (simp add: get_prop_def)
  show ?thesis
    using assistant_text_is_body_reply [OF h, of 1200 initial]
    by (simp add: get_prop_def initial_def)
qed

end
